theory Spec2Isabelle
  imports Main
begin

section \<open>Values exchanged with the import endpoint\<close>

text \<open>
  The file-upload indexing service (\<open>indexData\<close>, \<open>transformDataByFormatForIndexing\<close>,
  \<open>writeToIndex\<close>, \<open>chunkDataAndWriteToIndex\<close>) is JavaScript.  Its objects are
  modelled as records whose optional properties are \<open>option\<close> values: \<open>None\<close>
  stands for a property that is absent or \<open>undefined\<close>.  Settings, mappings and ingest
  pipelines are opaque JSON documents that the service only passes on.
\<close>

datatype json =
    JNull
  | JBool bool
  | JNum int
  | JStr string
  | JArr "json list"
  | JObj "(string \<times> json) list"

text \<open>
  JavaScript truthiness of a value that is a string or \<open>undefined\<close>: the tests
  \<open>!index\<close>, \<open>!id\<close>, \<open>!transform\<close>, \<open>appName ? .. : ..\<close> and \<open>error ? .. : ..\<close>
  of the source hold for \<open>undefined\<close> and for the empty string.
\<close>

definition truthy :: "string option \<Rightarrow> bool" where
  "truthy v = (case v of None \<Rightarrow> False | Some s \<Rightarrow> s \<noteq> [])"

text \<open>
  The object handed to \<open>writeToIndex\<close> and destructured by
  \<open>chunkDataAndWriteToIndex\<close>; \<open>'r\<close> is the type of one record of the file.
\<close>

record 'r details =
  d_id :: "string option"
  d_index :: "string option"
  d_data :: "'r list option"
  d_settings :: "json option"
  d_mappings :: "json option"
  d_ingestPipeline :: "json option"
  d_appName :: "string option"

text \<open>The argument of the \<open>http\<close> call: url, method and the \<open>data\<close> payload.\<close>

record 'r payload =
  p_index :: "string option"
  p_data :: "'r list option"
  p_settings :: "json option"
  p_mappings :: "json option"
  p_ingestPipeline :: "json option"
  p_fileType :: "string option"
  p_app :: "string option"

record 'r request =
  rq_url :: string
  rq_method :: string
  rq_data :: "'r payload"

text \<open>
  The response of the import endpoint, of the shape
  \<open>{success, failures, docCount, error?, id?}\<close>; \<open>'f\<close> is the type of one
  per-document failure.  Every call is taken to resolve to such an object, with a
  boolean \<open>success\<close> and an array \<open>failures\<close>: the http service turns a transport
  or server error into a response with \<open>success: false\<close>.
\<close>

record 'f response =
  resp_success :: bool
  resp_failures :: "'f list"
  resp_docCount :: int
  resp_error :: "string option"
  resp_id :: "string option"

text \<open>
  The object \<open>chunkDataAndWriteToIndex\<close> returns.  Its early return carries only
  \<open>success\<close> and \<open>error\<close>, so \<open>failures\<close> and \<open>docCount\<close> are optional too.
\<close>

record 'f import_result =
  res_success :: bool
  res_failures :: "'f list option"
  res_docCount :: "int option"
  res_error :: "string option"

text \<open>
  The network is not part of the service.  One run sees one response per call, and a
  response may depend on everything sent before: \<open>net_http\<close> maps the requests
  already sent and the request being sent to the response.  The effect of a call is
  that the request joins the list of requests sent.  \<open>net_basePath\<close> is the result of
  \<open>chrome.addBasePath('/api/fileupload')\<close>.
\<close>

record ('r, 'f) net =
  net_basePath :: string
  net_http :: "'r request list \<Rightarrow> 'r request \<Rightarrow> 'f response"

section \<open>Constants\<close>

definition CHUNK_SIZE :: nat where
  "CHUNK_SIZE = 10000"

definition IMPORT_RETRIES :: nat where
  "IMPORT_RETRIES = 5"

definition fileType :: string where
  "fileType = ''json''"

text \<open>
  Modelled from the spec: \<open>i18n.translate\<close> of \<open>@kbn/i18n\<close> is not among the
  sources.  The message catalogue is out of the specification's scope and the
  specification quotes the default message, so the translation of a message is its
  default message.
\<close>

definition i18n_translate :: "string \<Rightarrow> string \<Rightarrow> string" where
  "i18n_translate key defaultMessage = defaultMessage"

text \<open>
  Modelled from the spec: \<open>chunk\<close> of lodash is not among the sources.  It cuts an
  array into consecutive groups of \<open>size\<close> elements, in order, the last group holding
  what remains, and gives no group at all for an empty array or a size below one.
\<close>

function chunk :: "'a list \<Rightarrow> nat \<Rightarrow> 'a list list" where
  "chunk array size' =
     (if array = [] \<or> size' < 1 then []
      else take size' array # chunk (drop size' array) size')"
  by pat_completeness auto
termination
  by (relation "measure (\<lambda>(array, size'). length array)") auto

section \<open>The index writer\<close>

text \<open>The object \<open>writeToIndex\<close> passes to \<open>http\<close>.\<close>

definition http_argument :: "('r, 'f) net \<Rightarrow> 'r details \<Rightarrow> 'r request" where
  "http_argument nw indexingDetails =
     (let paramString = (case d_id indexingDetails of Some i \<Rightarrow> ''?id='' @ i | None \<Rightarrow> '''')
      in \<lparr> rq_url = net_basePath nw @ ''/import'' @ paramString,
           rq_method = ''POST'',
           rq_data = \<lparr> p_index = d_index indexingDetails,
                       p_data = d_data indexingDetails,
                       p_settings = d_settings indexingDetails,
                       p_mappings = d_mappings indexingDetails,
                       p_ingestPipeline = d_ingestPipeline indexingDetails,
                       p_fileType = Some fileType,
                       p_app = (if truthy (d_appName indexingDetails)
                                then d_appName indexingDetails else None) \<rparr> \<rparr>)"

definition writeToIndex ::
  "('r, 'f) net \<Rightarrow> 'r details \<Rightarrow> 'r request list \<Rightarrow> 'f response \<times> 'r request list" where
  "writeToIndex nw indexingDetails sent =
     (let req = http_argument nw indexingDetails
      in (net_http nw sent req, sent @ [req]))"

section \<open>The chunked importer\<close>

text \<open>
  The running totals of \<open>chunkDataAndWriteToIndex\<close>: its local variables
  \<open>success\<close>, \<open>failures\<close>, \<open>error\<close> and \<open>docCount\<close>.
\<close>

record 'f totals =
  t_success :: bool
  t_failures :: "'f list"
  t_error :: "string option"
  t_docCount :: int

text \<open>
  The inner loop \<open>while (resp.success === false && retries > 0)\<close>: one call of
  \<open>writeToIndex\<close> per round, \<open>retries\<close> counted down.  (The console messages of
  the source are not modelled.)
\<close>

fun retry_loop ::
  "('r, 'f) net \<Rightarrow> 'r details \<Rightarrow> nat \<Rightarrow> 'f response \<Rightarrow> 'r request list
    \<Rightarrow> 'f response \<times> 'r request list" where
  "retry_loop nw aggs retries resp sent =
     (if resp_success resp = False \<and> retries > 0
      then retry_loop nw aggs (retries - 1)
             (fst (writeToIndex nw aggs sent)) (snd (writeToIndex nw aggs sent))
      else (resp, sent))"

text \<open>The object \<open>aggs\<close> the outer loop builds for one chunk.\<close>

definition aggs ::
  "string option \<Rightarrow> string option \<Rightarrow> json option \<Rightarrow> json option \<Rightarrow> 'r list \<Rightarrow> 'r details" where
  "aggs id' index settings mappings c =
     \<lparr> d_id = id', d_index = index, d_data = Some c, d_settings = settings,
       d_mappings = mappings, d_ingestPipeline = Some (JObj []), d_appName = None \<rparr>"

text \<open>The value of \<open>resp\<close> before the first attempt.\<close>

definition no_response :: "'f response" where
  "no_response =
     \<lparr> resp_success = False, resp_failures = [], resp_docCount = 0,
       resp_error = None, resp_id = None \<rparr>"

text \<open>
  One round of the outer loop up to the end of its inner loop: \<open>aggs\<close> for the
  chunk, the initial \<open>resp\<close> and the retries.
\<close>

definition write_chunk ::
  "('r, 'f) net \<Rightarrow> string option \<Rightarrow> string option \<Rightarrow> json option \<Rightarrow> json option
    \<Rightarrow> 'r list \<Rightarrow> 'r request list \<Rightarrow> 'f response \<times> 'r request list" where
  "write_chunk nw id' index settings mappings c sent =
     (let retries = IMPORT_RETRIES;
          resp = no_response
      in retry_loop nw (aggs id' index settings mappings c) retries resp sent)"

text \<open>
  The outer loop \<open>for (let i = 0; i < chunks.length; i++)\<close>, as a recursion over the
  chunks still to be written; the \<open>break\<close> of the source is the branch that does not
  recurse.
\<close>

fun batch_loop ::
  "('r, 'f) net \<Rightarrow> string option \<Rightarrow> string option \<Rightarrow> json option \<Rightarrow> json option
    \<Rightarrow> 'r list list \<Rightarrow> 'f totals \<Rightarrow> 'r request list \<Rightarrow> 'f totals \<times> 'r request list" where
  "batch_loop nw id' index settings mappings [] tot sent = (tot, sent)"
| "batch_loop nw id' index settings mappings (c # chunks) tot sent =
     (case write_chunk nw id' index settings mappings c sent of
        (resp, sent') \<Rightarrow>
          if resp_success resp
          then batch_loop nw id' index settings mappings chunks
                 (tot\<lparr> t_failures := t_failures tot @ resp_failures resp,
                       t_docCount := resp_docCount resp \<rparr>) sent'
          else (tot\<lparr> t_failures := t_failures tot @ resp_failures resp,
                     t_success := False, t_error := resp_error resp, t_docCount := 0 \<rparr>,
                sent'))"

text \<open>The totals before the first chunk.\<close>

definition no_totals :: "'f totals" where
  "no_totals = \<lparr> t_success = True, t_failures = [], t_error = None, t_docCount = 0 \<rparr>"

text \<open>The object returned after the loop, built from the totals.\<close>

definition import_result_of :: "'f totals \<Rightarrow> 'f import_result" where
  "import_result_of tot =
     \<lparr> res_success = t_success tot, res_failures = Some (t_failures tot),
       res_docCount = Some (t_docCount tot),
       res_error = (if truthy (t_error tot) then t_error tot else None) \<rparr>"

text \<open>\<open>chunk(data, CHUNK_SIZE)\<close>; lodash gives no chunk for an absent array.\<close>

definition chunks_of :: "'r details \<Rightarrow> 'r list list" where
  "chunks_of args = chunk (case d_data args of None \<Rightarrow> [] | Some d \<Rightarrow> d) CHUNK_SIZE"

definition chunkDataAndWriteToIndex ::
  "('r, 'f) net \<Rightarrow> 'r details \<Rightarrow> 'r request list \<Rightarrow> 'f import_result \<times> 'r request list" where
  "chunkDataAndWriteToIndex nw args sent =
     (if \<not> truthy (d_index args)
      then (\<lparr> res_success = False, res_failures = None, res_docCount = None,
              res_error = Some (i18n_translate ''xpack.file_upload.noIndexSuppliedErrorMessage''
                                  ''No index supplied'') \<rparr>, sent)
      else
        let chunks = chunks_of args;
            out = batch_loop nw (d_id args) (d_index args) (d_settings args) (d_mappings args)
                    chunks no_totals sent
        in (import_result_of (fst out), snd out))"

text \<open>
  Three notions used to state properties of a run and of one round of its outer loop.
  The request that every attempt for the chunk \<open>c\<close> sends:
\<close>

definition chunk_request :: "('r, 'f) net \<Rightarrow> 'r details \<Rightarrow> 'r list \<Rightarrow> 'r request" where
  "chunk_request nw args c =
     http_argument nw (aggs (d_id args) (d_index args) (d_settings args) (d_mappings args) c)"

text \<open>the records a request carries:\<close>

definition batch_of :: "'r request \<Rightarrow> 'r list" where
  "batch_of req = (case p_data (rq_data req) of Some b \<Rightarrow> b | None \<Rightarrow> [])"

text \<open>
  and the state in which the run \<open>chunkDataAndWriteToIndex nw args sent\<close> starts the
  round for the chunk \<open>c\<close>: the index is given, the chunks are \<open>pre\<close>, then \<open>c\<close>,
  then \<open>rest\<close>, and the rounds for \<open>pre\<close> have ended without a \<open>break\<close>, with the
  totals \<open>tot\<close> and the requests \<open>sent'\<close> sent so far.
\<close>

definition loop_reaches ::
  "('r, 'f) net \<Rightarrow> 'r details \<Rightarrow> 'r request list \<Rightarrow> 'r list list \<Rightarrow> 'r list \<Rightarrow> 'r list list
    \<Rightarrow> 'f totals \<Rightarrow> 'r request list \<Rightarrow> bool" where
  "loop_reaches nw args sent pre c rest tot sent' \<longleftrightarrow>
     truthy (d_index args) \<and> chunks_of args = pre @ c # rest \<and>
     batch_loop nw (d_id args) (d_index args) (d_settings args) (d_mappings args)
       pre no_totals sent = (tot, sent') \<and>
     t_success tot"

section \<open>The transform resolver\<close>

text \<open>
  The object a transform produces is later spread into other objects, and a spread
  copies every own property, also one whose value is \<open>undefined\<close>.  So this object is
  modelled by its own properties: a property is \<open>Missing\<close>, or the object \<open>Has\<close> it
  with a value, where the value \<open>None\<close> is \<open>undefined\<close>.
\<close>

datatype 'a own = Missing | Has "'a option"

record 'r own_details =
  o_id :: "string own"
  o_index :: "string own"
  o_data :: "'r list own"
  o_settings :: "json own"
  o_mappings :: "json own"
  o_ingestPipeline :: "json own"
  o_appName :: "string own"

text \<open>
  A transform descriptor is absent (\<open>undefined\<close>), a string tag, or a custom object;
  a custom object is given by its method \<open>getIndexingDetails\<close>, whose result is
  \<open>None\<close> when it is not truthy.  \<open>'p\<close> is the type of a parsed file.
\<close>

datatype ('p, 'r) transform =
    NoTransform
  | Tag string
  | Custom "'p \<Rightarrow> 'r own_details option"

text \<open>\<open>!transform\<close> holds for an absent descriptor and for the empty string.\<close>

fun transform_truthy :: "('p, 'r) transform \<Rightarrow> bool" where
  "transform_truthy NoTransform = False"
| "transform_truthy (Tag t) = (t \<noteq> [])"
| "transform_truthy (Custom obj) = True"

text \<open>The text a template literal \<open>${transform}\<close> gives.\<close>

fun transform_string :: "('p, 'r) transform \<Rightarrow> string" where
  "transform_string NoTransform = ''undefined''"
| "transform_string (Tag t) = t"
| "transform_string (Custom obj) = ''[object Object]''"

record 'r transform_result =
  tr_success :: bool
  tr_error :: "string option"
  tr_indexingDetails :: "'r own_details option"

text \<open>
  \<open>getGeoJsonIndexingDetails\<close> (geo processing) is not part of the service: it is
  the first parameter of the resolver.
\<close>

definition transformDataByFormatForIndexing ::
  "('p \<Rightarrow> string \<Rightarrow> 'r own_details option) \<Rightarrow> ('p, 'r) transform \<Rightarrow> 'p \<Rightarrow> string
    \<Rightarrow> 'r transform_result" where
  "transformDataByFormatForIndexing getGeoJsonIndexingDetails transform parsedFile dataType =
     (let finish = (\<lambda>indexingDetails.
            case indexingDetails of
              Some d \<Rightarrow> \<lparr> tr_success = True, tr_error = None, tr_indexingDetails = Some d \<rparr>
            | None \<Rightarrow> \<lparr> tr_success = False,
                        tr_error = Some (''Unknown error performing transform: ''
                                          @ transform_string transform),
                        tr_indexingDetails = None \<rparr>);
          missing = \<lparr> tr_success = False, tr_error = Some ''No transform defined'',
                      tr_indexingDetails = None \<rparr>
      in if \<not> transform_truthy transform then missing
         else
           case transform of
             Tag t \<Rightarrow>
               if t = ''geo'' then finish (getGeoJsonIndexingDetails parsedFile dataType)
               else \<lparr> tr_success = False,
                      tr_error = Some (''No handling defined for transform: '' @ t),
                      tr_indexingDetails = None \<rparr>
           | Custom obj \<Rightarrow> finish (obj parsedFile)
           | NoTransform \<Rightarrow> missing)"

section \<open>The entry point\<close>

text \<open>
  Object spread: in \<open>{...a, ...b}\<close> every own property of \<open>b\<close> replaces the one of
  \<open>a\<close>, with its value, be it \<open>undefined\<close>; a property that \<open>b\<close> has not keeps the
  value it has in \<open>a\<close>.  \<open>over\<close> is this rule for one property, and \<open>spread\<close>
  gives the values read from \<open>{...a, ...b}\<close>.
\<close>

definition over :: "'a own \<Rightarrow> 'a option \<Rightarrow> 'a option" where
  "over p earlier = (case p of Missing \<Rightarrow> earlier | Has v \<Rightarrow> v)"

definition spread :: "'r details \<Rightarrow> 'r own_details \<Rightarrow> 'r details" where
  "spread a b =
     \<lparr> d_id = over (o_id b) (d_id a),
       d_index = over (o_index b) (d_index a),
       d_data = over (o_data b) (d_data a),
       d_settings = over (o_settings b) (d_settings a),
       d_mappings = over (o_mappings b) (d_mappings a),
       d_ingestPipeline = over (o_ingestPipeline b) (d_ingestPipeline a),
       d_appName = over (o_appName b) (d_appName a) \<rparr>"

definition no_details :: "'r details" where
  "no_details =
     \<lparr> d_id = None, d_index = None, d_data = None, d_settings = None, d_mappings = None,
       d_ingestPipeline = None, d_appName = None \<rparr>"

text \<open>Spreading \<open>undefined\<close> adds no property.\<close>

definition no_own :: "'r own_details" where
  "no_own =
     \<lparr> o_id = Missing, o_index = Missing, o_data = Missing, o_settings = Missing,
       o_mappings = Missing, o_ingestPipeline = Missing, o_appName = Missing \<rparr>"

text \<open>
  The two objects \<open>indexData\<close> builds: the one that creates the index,
  \<open>{appName, ...indexingDetails, id: undefined, data: [], index: indexName}\<close>, and the
  one that writes the records,
  \<open>{id, index: indexName, ...indexingDetails, settings: {}, mappings: {}}\<close>.  The keys
  written after the spread replace what the spread gave; the keys written before it
  are replaced by the own properties of \<open>indexingDetails\<close>.
\<close>

definition creation_details ::
  "string option \<Rightarrow> 'r own_details \<Rightarrow> string option \<Rightarrow> 'r details" where
  "creation_details appName indexingDetails indexName =
     (spread (no_details\<lparr> d_appName := appName \<rparr>) indexingDetails)
       \<lparr> d_id := None, d_data := Some [], d_index := indexName \<rparr>"

definition import_details ::
  "string option \<Rightarrow> string option \<Rightarrow> 'r own_details \<Rightarrow> 'r details" where
  "import_details id' indexName indexingDetails =
     (spread (no_details\<lparr> d_id := id', d_index := indexName \<rparr>) indexingDetails)
       \<lparr> d_settings := Some (JObj []), d_mappings := Some (JObj []) \<rparr>"

text \<open>
  \<open>indexData\<close> is asynchronous; a \<open>throw\<close> rejects its promise.  The result is
  \<open>Inl\<close> of the value thrown or \<open>Inr\<close> of the value returned, together with the
  requests sent.  The parsed file is \<open>None\<close> when \<open>!parsedFile\<close> holds.
\<close>

definition indexData ::
  "('p \<Rightarrow> string \<Rightarrow> 'r own_details option) \<Rightarrow> ('r, 'f) net \<Rightarrow> 'p option \<Rightarrow> ('p, 'r) transform
    \<Rightarrow> string option \<Rightarrow> string \<Rightarrow> string option \<Rightarrow> 'r request list
    \<Rightarrow> (string + 'f import_result) \<times> 'r request list" where
  "indexData getGeoJsonIndexingDetails nw parsedFile transformDetails indexName dataType
     appName sent =
     (case parsedFile of
        None \<Rightarrow> (Inl ''No file imported'', sent)
      | Some file \<Rightarrow>
          let transformResult =
                transformDataByFormatForIndexing getGeoJsonIndexingDetails transformDetails
                  file dataType
          in if \<not> tr_success transformResult
             then (Inl (''Error transforming data: ''
                        @ (case tr_error transformResult of Some e \<Rightarrow> e
                           | None \<Rightarrow> ''undefined'')), sent)
             else
               let indexingDetails =
                     (case tr_indexingDetails transformResult of Some d \<Rightarrow> d
                      | None \<Rightarrow> no_own);
                   created = writeToIndex nw
                     (creation_details appName indexingDetails indexName) sent;
                   id' = resp_id (fst created)
               in if \<not> truthy id' then (Inl ''Error creating index'', snd created)
                  else
                    let written = chunkDataAndWriteToIndex nw
                          (import_details id' indexName indexingDetails) (snd created)
                    in (Inr (fst written), snd written))"

section \<open>Sample networks and inputs\<close>

text \<open>
  Concrete networks and arguments, on which the theorems below are instantiated.
  The records of a file are natural numbers here and a per-document failure is a
  string.
\<close>

text \<open>Every write succeeds and reports as many documents as the batch holds.\<close>

definition net_ok :: "(nat, string) net" where
  "net_ok =
     \<lparr> net_basePath = ''/api/fileupload'',
       net_http = (\<lambda>sent req.
         \<lparr> resp_success = True, resp_failures = [],
           resp_docCount = int (length (batch_of req)),
           resp_error = None, resp_id = Some ''uuid-1'' \<rparr>) \<rparr>"

text \<open>Every write fails, rejecting one document.\<close>

definition net_down :: "(nat, string) net" where
  "net_down =
     \<lparr> net_basePath = ''/api/fileupload'',
       net_http = (\<lambda>sent req.
         \<lparr> resp_success = False, resp_failures = [''rejected''], resp_docCount = 0,
           resp_error = Some ''unavailable'', resp_id = None \<rparr>) \<rparr>"

text \<open>
  The first write of a run fails, rejecting one document; every later write
  succeeds with no failure.
\<close>

definition net_flaky :: "(nat, string) net" where
  "net_flaky =
     \<lparr> net_basePath = ''/api/fileupload'',
       net_http = (\<lambda>sent req.
         if sent = []
         then \<lparr> resp_success = False, resp_failures = [''rejected''], resp_docCount = 0,
                resp_error = Some ''timeout'', resp_id = None \<rparr>
         else \<lparr> resp_success = True, resp_failures = [],
                resp_docCount = int (length (batch_of req)),
                resp_error = None, resp_id = Some ''uuid-1'' \<rparr>) \<rparr>"

text \<open>Only the first write of a run succeeds.\<close>

definition net_first_only :: "(nat, string) net" where
  "net_first_only =
     \<lparr> net_basePath = ''/api/fileupload'',
       net_http = (\<lambda>sent req.
         if sent = []
         then \<lparr> resp_success = True, resp_failures = [],
                resp_docCount = int (length (batch_of req)),
                resp_error = None, resp_id = Some ''uuid-1'' \<rparr>
         else \<lparr> resp_success = False, resp_failures = [''rejected''], resp_docCount = 0,
                resp_error = Some ''unavailable'', resp_id = None \<rparr>) \<rparr>"

text \<open>
  A geo transform that indexes the parsed file as it is: its object has the
  properties \<open>data\<close>, \<open>mappings\<close> and \<open>ingestPipeline\<close>.
\<close>

definition sample_geo :: "nat list \<Rightarrow> string \<Rightarrow> nat own_details option" where
  "sample_geo parsedFile dataType =
     Some \<lparr> o_id = Missing, o_index = Missing, o_data = Has (Some parsedFile),
            o_settings = Missing,
            o_mappings = Has (Some (JObj [(''geometry'', JStr dataType)])),
            o_ingestPipeline = Has (Some (JObj [])), o_appName = Missing \<rparr>"

text \<open>
  A custom transform whose object also has the properties \<open>index\<close> and \<open>appName\<close>,
  both with the value \<open>undefined\<close>.
\<close>

definition sample_custom :: "nat list \<Rightarrow> nat own_details option" where
  "sample_custom parsedFile =
     Some \<lparr> o_id = Missing, o_index = Has None, o_data = Has (Some parsedFile),
            o_settings = Missing, o_mappings = Missing,
            o_ingestPipeline = Missing, o_appName = Has None \<rparr>"

definition sample_args :: "nat list \<Rightarrow> nat details" where
  "sample_args records =
     \<lparr> d_id = Some ''uuid-1'', d_index = Some ''sales'', d_data = Some records,
       d_settings = Some (JObj []), d_mappings = Some (JObj []),
       d_ingestPipeline = None, d_appName = None \<rparr>"

section \<open>Properties of the loops\<close>

declare retry_loop.simps [simp del]
declare chunk.simps [simp del]

subsection \<open>Chunks\<close>

text \<open>
  What \<open>chunk\<close> gives, without unfolding its recursion blindly.
\<close>

lemma chunk_empty: "chunk [] n = []"
  by (subst chunk.simps) simp

lemma chunk_step:
  "xs \<noteq> [] \<Longrightarrow> 0 < n \<Longrightarrow> chunk xs n = take n xs # chunk (drop n xs) n"
  by (subst chunk.simps) simp

lemma chunk_short:
  "xs \<noteq> [] \<Longrightarrow> length xs \<le> n \<Longrightarrow> chunk xs n = [xs]"
proof -
  assume ne: "xs \<noteq> []" and le: "length xs \<le> n"
  then have "0 < n" by (cases xs) auto
  with ne have "chunk xs n = take n xs # chunk (drop n xs) n"
    by (rule chunk_step)
  also have "\<dots> = [xs]"
    using le by (simp add: chunk_empty)
  finally show ?thesis .
qed

lemma concat_chunk: "0 < n \<Longrightarrow> concat (chunk xs n) = xs"
proof (induction xs n rule: chunk.induct)
  case (1 array size')
  show ?case
  proof (cases "array = []")
    case True
    then show ?thesis by (simp add: chunk_empty)
  next
    case False
    from False 1(2)
    have "chunk array size' = take size' array # chunk (drop size' array) size'"
      by (rule chunk_step)
    moreover have "concat (chunk (drop size' array) size') = drop size' array"
      using 1 False by simp
    ultimately show ?thesis by simp
  qed
qed

lemma chunk_eq_Nil: "0 < n \<Longrightarrow> chunk xs n = [] \<longleftrightarrow> xs = []"
proof (cases "xs = []")
  case True
  then show ?thesis by (simp add: chunk_empty)
next
  case False
  assume "0 < n"
  with False have "chunk xs n = take n xs # chunk (drop n xs) n"
    by (rule chunk_step)
  with False show ?thesis by simp
qed

lemma chunk_lengths:
  "0 < n \<Longrightarrow> i < length (chunk xs n) \<Longrightarrow>
   (Suc i < length (chunk xs n) \<longrightarrow> length (chunk xs n ! i) = n)
   \<and> 0 < length (chunk xs n ! i) \<and> length (chunk xs n ! i) \<le> n"
proof (induction xs n arbitrary: i rule: chunk.induct)
  case (1 array size')
  from 1(3) have ne: "array \<noteq> []"
    by (auto simp: chunk_empty)
  have step: "chunk array size' = take size' array # chunk (drop size' array) size'"
    using ne 1(2) by (rule chunk_step)
  show ?case
  proof (cases i)
    case 0
    have a: "0 < length (take size' array)" "length (take size' array) \<le> size'"
      using ne 1(2) by simp_all
    have b: "Suc 0 < length (chunk array size') \<Longrightarrow> length (take size' array) = size'"
    proof -
      assume "Suc 0 < length (chunk array size')"
      then have "chunk (drop size' array) size' \<noteq> []"
        by (simp add: step)
      then have "drop size' array \<noteq> []"
        by (auto simp: chunk_empty)
      then show ?thesis by simp
    qed
    from a b show ?thesis
      unfolding 0 by (simp add: step)
  next
    case (Suc j)
    with 1(3) have j: "j < length (chunk (drop size' array) size')"
      by (simp add: step)
    have "\<not> (array = [] \<or> size' < 1)"
      using ne 1(2) by simp
    from 1(1) [OF this 1(2) j]
    have IH: "(Suc j < length (chunk (drop size' array) size')
                \<longrightarrow> length (chunk (drop size' array) size' ! j) = size')
        \<and> 0 < length (chunk (drop size' array) size' ! j)
        \<and> length (chunk (drop size' array) size' ! j) \<le> size'" .
    have nth: "chunk array size' ! Suc j = chunk (drop size' array) size' ! j"
      by (simp add: step)
    have len: "length (chunk array size') = Suc (length (chunk (drop size' array) size'))"
      by (simp add: step)
    from IH show ?thesis
      unfolding Suc nth len by simp
  qed
qed

lemma chunk_25000:
  assumes "length xs = 25000"
  shows "chunk xs 10000 = [take 10000 xs, take 10000 (drop 10000 xs), drop 20000 xs]"
proof -
  have a: "xs \<noteq> []" and b: "drop 10000 xs \<noteq> []" and c: "drop 20000 xs \<noteq> []"
    using assms by auto
  have "chunk xs 10000 = take 10000 xs # chunk (drop 10000 xs) 10000"
    using a by (rule chunk_step) simp
  also have "chunk (drop 10000 xs) 10000 =
               take 10000 (drop 10000 xs) # chunk (drop 10000 (drop 10000 xs)) 10000"
    using b by (rule chunk_step) simp
  also have "drop 10000 (drop 10000 xs) = drop 20000 xs"
    by simp
  also have "chunk (drop 20000 xs) 10000 = [drop 20000 xs]"
    using c by (rule chunk_short) (simp add: assms)
  finally show ?thesis .
qed

subsection \<open>The inner loop\<close>

text \<open>
  The retries for one chunk: a round of the inner loop, a run of failing attempts,
  and the three ways the loop can end.
\<close>

lemma retry_loop_stop:
  "resp_success resp \<or> n = 0 \<Longrightarrow> retry_loop nw a n resp sent = (resp, sent)"
  by (subst retry_loop.simps) auto

lemma retry_loop_step:
  "\<not> resp_success resp \<Longrightarrow>
   retry_loop nw a (Suc n) resp sent =
     retry_loop nw a n (net_http nw sent (http_argument nw a)) (sent @ [http_argument nw a])"
  by (subst retry_loop.simps) (simp add: writeToIndex_def Let_def)

lemma retry_loop_unfold:
  "\<not> resp_success resp \<Longrightarrow> 0 < n \<Longrightarrow>
   retry_loop nw a n resp sent =
     retry_loop nw a (n - 1) (net_http nw sent (http_argument nw a)) (sent @ [http_argument nw a])"
  by (cases n) (simp_all add: retry_loop_step)

lemma retry_loop_failures:
  "\<not> resp_success resp \<Longrightarrow>
   \<forall>j<m. \<not> resp_success (net_http nw (sent @ replicate j (http_argument nw a)) (http_argument nw a)) \<Longrightarrow>
   retry_loop nw a (m + n) resp sent =
     retry_loop nw a n
       (if m = 0 then resp
        else net_http nw (sent @ replicate (m - 1) (http_argument nw a)) (http_argument nw a))
       (sent @ replicate m (http_argument nw a))"
proof (induction m arbitrary: resp sent)
  case 0
  then show ?case by simp
next
  case (Suc m)
  let ?q = "http_argument nw a"
  have first: "\<not> resp_success (net_http nw sent ?q)"
    using Suc.prems(2) by (metis append_Nil2 replicate_0 zero_less_Suc)
  have later: "\<forall>j<m. \<not> resp_success (net_http nw ((sent @ [?q]) @ replicate j ?q) ?q)"
  proof (intro allI impI)
    fix j assume "j < m"
    then have "Suc j < Suc m" by simp
    then have "\<not> resp_success (net_http nw (sent @ replicate (Suc j) ?q) ?q)"
      using Suc.prems(2) by blast
    then show "\<not> resp_success (net_http nw ((sent @ [?q]) @ replicate j ?q) ?q)"
      by simp
  qed
  have "retry_loop nw a (Suc m + n) resp sent
        = retry_loop nw a (m + n) (net_http nw sent ?q) (sent @ [?q])"
    using Suc.prems(1) by (simp add: retry_loop_step)
  also have "\<dots> = retry_loop nw a n
       (if m = 0 then net_http nw sent ?q
        else net_http nw ((sent @ [?q]) @ replicate (m - 1) ?q) ?q)
       ((sent @ [?q]) @ replicate m ?q)"
    using Suc.IH [OF first later] .
  also have "\<dots> = retry_loop nw a n
       (net_http nw (sent @ replicate m ?q) ?q) (sent @ replicate (Suc m) ?q)"
    by (cases m) (simp_all add: replicate_append_same)
  finally show ?case by simp
qed

lemma write_chunk_all_fail:
  assumes "\<forall>j<IMPORT_RETRIES. \<not> resp_success (net_http nw (sent @ replicate j q) q)"
    and "q = http_argument nw (aggs i x st mp c)"
  shows "write_chunk nw i x st mp c sent =
           (net_http nw (sent @ replicate 4 q) q, sent @ replicate 5 q)"
proof -
  have "retry_loop nw (aggs i x st mp c) (5 + 0) no_response sent =
        retry_loop nw (aggs i x st mp c) 0
          (if (5::nat) = 0 then no_response else net_http nw (sent @ replicate (5 - 1) q) q)
          (sent @ replicate 5 q)"
    unfolding assms(2) using assms(1)
    by (intro retry_loop_failures) (simp_all add: IMPORT_RETRIES_def assms(2) no_response_def)
  then show ?thesis
    by (simp add: write_chunk_def IMPORT_RETRIES_def retry_loop_stop)
qed

lemma write_chunk_success_at:
  assumes "1 \<le> k" and "k \<le> IMPORT_RETRIES"
    and "\<forall>j<k - 1. \<not> resp_success (net_http nw (sent @ replicate j q) q)"
    and "resp_success (net_http nw (sent @ replicate (k - 1) q) q)"
    and "q = http_argument nw (aggs i x st mp c)"
  shows "write_chunk nw i x st mp c sent =
           (net_http nw (sent @ replicate (k - 1) q) q, sent @ replicate k q)"
proof -
  let ?a = "aggs i x st mp c"
  define m where "m = k - 1"
  define n where "n = IMPORT_RETRIES - k"
  have k: "k = Suc m" and five: "IMPORT_RETRIES = m + Suc n"
    using assms(1,2) by (simp_all add: m_def n_def)
  let ?rm = "if m = 0 then no_response else net_http nw (sent @ replicate (m - 1) q) q"
  have fails: "\<forall>j<m. \<not> resp_success (net_http nw (sent @ replicate j q) q)"
    using assms(3) by (simp add: m_def)
  have rm: "\<not> resp_success ?rm"
    using fails by (cases m) (simp_all add: no_response_def)
  have "retry_loop nw ?a (m + Suc n) no_response sent = retry_loop nw ?a (Suc n) ?rm (sent @ replicate m q)"
    unfolding assms(5) using fails
    by (intro retry_loop_failures) (simp_all add: assms(5) no_response_def)
  also have "\<dots> = retry_loop nw ?a n (net_http nw (sent @ replicate m q) q)
                      ((sent @ replicate m q) @ [q])"
    using rm unfolding assms(5) by (rule retry_loop_step)
  also have "\<dots> = (net_http nw (sent @ replicate m q) q, (sent @ replicate m q) @ [q])"
    using assms(4) by (simp add: retry_loop_stop m_def)
  finally show ?thesis
    by (simp add: write_chunk_def five k replicate_append_same)
qed

lemma write_chunk_first_ok:
  assumes "resp_success (net_http nw sent q)" and "q = http_argument nw (aggs i x st mp c)"
  shows "write_chunk nw i x st mp c sent = (net_http nw sent q, sent @ [q])"
proof -
  have "write_chunk nw i x st mp c sent =
          (net_http nw (sent @ replicate (1 - 1) q) q, sent @ replicate 1 q)"
    using assms by (intro write_chunk_success_at) (simp_all add: IMPORT_RETRIES_def)
  then show ?thesis by simp
qed

lemma write_chunk_cases:
  assumes "q = http_argument nw (aggs i x st mp c)"
  shows "\<exists>k. 1 \<le> k \<and> k \<le> IMPORT_RETRIES \<and>
           (\<forall>j<k - 1. \<not> resp_success (net_http nw (sent @ replicate j q) q)) \<and>
           (resp_success (net_http nw (sent @ replicate (k - 1) q) q) \<or> k = IMPORT_RETRIES) \<and>
           write_chunk nw i x st mp c sent =
             (net_http nw (sent @ replicate (k - 1) q) q, sent @ replicate k q)"
proof (cases "\<forall>j<IMPORT_RETRIES. \<not> resp_success (net_http nw (sent @ replicate j q) q)")
  case True
  from write_chunk_all_fail [OF True assms] True
  show ?thesis
    by (intro exI [of _ IMPORT_RETRIES]) (simp add: IMPORT_RETRIES_def)
next
  case False
  define P where "P = (\<lambda>j. resp_success (net_http nw (sent @ replicate j q) q))"
  from False obtain j0 where "j0 < IMPORT_RETRIES" "P j0"
    by (auto simp: P_def)
  define j where "j = (LEAST j. P j)"
  have Pj: "P j" unfolding j_def using \<open>P j0\<close> by (rule LeastI)
  have "j \<le> j0" unfolding j_def using \<open>P j0\<close> by (rule Least_le)
  have before: "\<forall>l<j. \<not> P l"
    unfolding j_def using not_less_Least by blast
  have "write_chunk nw i x st mp c sent =
          (net_http nw (sent @ replicate (Suc j - 1) q) q, sent @ replicate (Suc j) q)"
    using \<open>j \<le> j0\<close> \<open>j0 < IMPORT_RETRIES\<close> before Pj
    by (intro write_chunk_success_at assms) (simp_all add: P_def)
  then show ?thesis
    using \<open>j \<le> j0\<close> \<open>j0 < IMPORT_RETRIES\<close> before Pj
    by (intro exI [of _ "Suc j"]) (simp add: P_def)
qed

subsection \<open>The outer loop\<close>

text \<open>
  The rounds of the outer loop compose, and a run that reaches a chunk goes on as
  the loop does from there.
\<close>

lemma batch_loop_append:
  "batch_loop nw i x st mp pre tot sent = (tot', sent') \<Longrightarrow> t_success tot' \<Longrightarrow>
   batch_loop nw i x st mp (pre @ cs) tot sent = batch_loop nw i x st mp cs tot' sent'"
proof (induction pre arbitrary: tot sent)
  case Nil
  then show ?case by simp
next
  case (Cons c pre)
  obtain resp s1 where w: "write_chunk nw i x st mp c sent = (resp, s1)"
    by (cases "write_chunk nw i x st mp c sent")
  show ?case
  proof (cases "resp_success resp")
    case True
    with w Cons.prems Cons.IH show ?thesis by simp
  next
    case False
    with w Cons.prems show ?thesis by auto
  qed
qed

text \<open>
  \<open>loop_reaches\<close> follows the loop: it holds at the first chunk, and it passes from
  a chunk whose last response reports success to the next chunk.
\<close>

lemma first_chunk_reached:
  "truthy (d_index args) \<Longrightarrow> chunks_of args = c # rest \<Longrightarrow>
   loop_reaches nw args sent [] c rest no_totals sent"
  by (simp add: loop_reaches_def no_totals_def)

lemma next_chunk_reached:
  assumes "loop_reaches nw args sent pre c (c' # rest) tot sent1"
    and "write_chunk nw (d_id args) (d_index args) (d_settings args) (d_mappings args) c sent1
           = (resp, sent2)"
    and "resp_success resp"
  shows "loop_reaches nw args sent (pre @ [c]) c' rest
           (tot\<lparr> t_failures := t_failures tot @ resp_failures resp,
                 t_docCount := resp_docCount resp \<rparr>) sent2"
proof -
  from assms(1) have idx: "truthy (d_index args)"
    and ch: "chunks_of args = pre @ c # c' # rest"
    and pre: "batch_loop nw (d_id args) (d_index args) (d_settings args) (d_mappings args)
       pre no_totals sent = (tot, sent1)" and ok: "t_success tot"
    by (simp_all add: loop_reaches_def)
  have "batch_loop nw (d_id args) (d_index args) (d_settings args) (d_mappings args)
          (pre @ [c]) no_totals sent =
        batch_loop nw (d_id args) (d_index args) (d_settings args) (d_mappings args)
          [c] tot sent1"
    using pre ok by (rule batch_loop_append)
  also have "\<dots> = (tot\<lparr> t_failures := t_failures tot @ resp_failures resp,
                 t_docCount := resp_docCount resp \<rparr>, sent2)"
    using assms(2,3) by simp
  finally show ?thesis
    using idx ch ok by (simp add: loop_reaches_def)
qed

lemma run_from:
  assumes "loop_reaches nw args sent pre c rest tot sent'"
  shows "chunkDataAndWriteToIndex nw args sent =
     (import_result_of (fst (batch_loop nw (d_id args) (d_index args) (d_settings args)
                               (d_mappings args) (c # rest) tot sent')),
      snd (batch_loop nw (d_id args) (d_index args) (d_settings args)
             (d_mappings args) (c # rest) tot sent'))"
proof -
  from assms have idx: "truthy (d_index args)" and ch: "chunks_of args = pre @ c # rest"
    and pre: "batch_loop nw (d_id args) (d_index args) (d_settings args) (d_mappings args)
       pre no_totals sent = (tot, sent')" and ok: "t_success tot"
    by (simp_all add: loop_reaches_def)
  from batch_loop_append [OF pre ok, of "c # rest"] idx ch
  show ?thesis
    by (simp add: chunkDataAndWriteToIndex_def Let_def del: batch_loop.simps)
qed

lemma batch_loop_failures_split:
  "t_failures (fst (batch_loop nw i x st mp cs tot sent)) =
     t_failures tot @ t_failures (fst (batch_loop nw i x st mp cs no_totals sent))"
proof (induction cs arbitrary: tot sent)
  case Nil
  then show ?case by (simp add: no_totals_def)
next
  case (Cons c cs)
  obtain resp s1 where w: "write_chunk nw i x st mp c sent = (resp, s1)"
    by (cases "write_chunk nw i x st mp c sent")
  show ?case
  proof (cases "resp_success resp")
    case True
    let ?t1 = "tot\<lparr> t_failures := t_failures tot @ resp_failures resp,
                    t_docCount := resp_docCount resp \<rparr>"
    let ?t0 = "no_totals\<lparr> t_failures := t_failures no_totals @ resp_failures resp,
                    t_docCount := resp_docCount resp \<rparr>"
    have a: "t_failures (fst (batch_loop nw i x st mp cs ?t1 s1)) =
             t_failures ?t1 @ t_failures (fst (batch_loop nw i x st mp cs no_totals s1))"
      by (rule Cons.IH)
    have b: "t_failures (fst (batch_loop nw i x st mp cs ?t0 s1)) =
             t_failures ?t0 @ t_failures (fst (batch_loop nw i x st mp cs no_totals s1))"
      by (rule Cons.IH)
    show ?thesis
      using w True a b by (simp add: no_totals_def)
  next
    case False
    with w show ?thesis by (simp add: no_totals_def)
  qed
qed

lemma batch_loop_docCount:
  "t_success tot \<Longrightarrow>
   \<not> t_success (fst (batch_loop nw i x st mp cs tot sent)) \<Longrightarrow>
   t_docCount (fst (batch_loop nw i x st mp cs tot sent)) = 0"
proof (induction cs arbitrary: tot sent)
  case Nil
  then show ?case by simp
next
  case (Cons c cs)
  obtain resp s1 where w: "write_chunk nw i x st mp c sent = (resp, s1)"
    by (cases "write_chunk nw i x st mp c sent")
  show ?case
  proof (cases "resp_success resp")
    case True
    let ?tot = "tot\<lparr> t_failures := t_failures tot @ resp_failures resp,
                     t_docCount := resp_docCount resp \<rparr>"
    have step: "batch_loop nw i x st mp (c # cs) tot sent = batch_loop nw i x st mp cs ?tot s1"
      using w True by simp
    have "t_success ?tot"
      using Cons.prems(1) by simp
    from Cons.IH [OF this] Cons.prems(2) show ?thesis
      unfolding step by blast
  next
    case False
    with w show ?thesis by simp
  qed
qed

lemma batch_of_chunk_request: "batch_of (chunk_request nw args c) = c"
  by (simp add: batch_of_def chunk_request_def http_argument_def aggs_def)

lemma batch_loop_all_ok:
  assumes "\<forall>s q. resp_success (net_http nw s q)"
  shows "snd (batch_loop nw i x st mp cs tot sent) =
           sent @ map (\<lambda>c. http_argument nw (aggs i x st mp c)) cs"
proof (induction cs arbitrary: tot sent)
  case Nil
  then show ?case by simp
next
  case (Cons c cs)
  let ?q = "http_argument nw (aggs i x st mp c)"
  have ok: "resp_success (net_http nw sent ?q)"
    using assms by simp
  have w: "write_chunk nw i x st mp c sent = (net_http nw sent ?q, sent @ [?q])"
    using ok by (rule write_chunk_first_ok) simp
  show ?case
    using ok by (simp add: w Cons.IH)
qed

subsection \<open>The transform resolver\<close>

text \<open>
  When the resolver fails, with which error, and what it gives when it succeeds.
\<close>

lemma resolver_fails:
  "\<not> tr_success (transformDataByFormatForIndexing geo transform file dataType) \<longleftrightarrow>
     \<not> transform_truthy transform
   \<or> (\<exists>t. transform = Tag t \<and> t \<noteq> ''geo'')
   \<or> (transform = Tag ''geo'' \<and> geo file dataType = None)
   \<or> (\<exists>obj. transform = Custom obj \<and> obj file = None)"
  by (cases transform)
    (auto simp: transformDataByFormatForIndexing_def Let_def split: option.splits)

lemma resolver_error:
  "tr_error (transformDataByFormatForIndexing geo transform file dataType) =
     (if \<not> transform_truthy transform then Some ''No transform defined''
      else case transform of
          Tag t \<Rightarrow>
            if t = ''geo''
            then (case geo file dataType of
                    None \<Rightarrow> Some ''Unknown error performing transform: geo''
                  | Some d \<Rightarrow> None)
            else Some (''No handling defined for transform: '' @ t)
        | Custom obj \<Rightarrow>
            (case obj file of
               None \<Rightarrow> Some ''Unknown error performing transform: [object Object]''
             | Some d \<Rightarrow> None)
        | NoTransform \<Rightarrow> Some ''No transform defined'')"
  by (cases transform)
    (auto simp: transformDataByFormatForIndexing_def Let_def split: option.splits)

lemma resolver_succeeds:
  "tr_success (transformDataByFormatForIndexing geo transform file dataType) \<Longrightarrow>
   \<exists>d. transformDataByFormatForIndexing geo transform file dataType =
         \<lparr> tr_success = True, tr_error = None, tr_indexingDetails = Some d \<rparr>"
  by (cases transform)
    (auto simp: transformDataByFormatForIndexing_def Let_def split: option.splits if_splits)

subsection \<open>The sample runs, evaluated\<close>

lemma chunks_of_20001:
  "chunks_of (sample_args (replicate 20001 0)) =
     [replicate 10000 0] @ replicate 10000 0 # [[0]]"
  by (simp add: chunks_of_def sample_args_def CHUNK_SIZE_def chunk_step chunk_empty)

lemma first_only_round1:
  "batch_loop net_first_only (Some ''uuid-1'') (Some ''sales'') (Some (JObj [])) (Some (JObj []))
     [replicate 10000 0] no_totals [] =
   (\<lparr> t_success = True, t_failures = [], t_error = None, t_docCount = 10000 \<rparr>,
    [chunk_request net_first_only (sample_args (replicate 20001 0)) (replicate 10000 0)])"
  by (simp add: write_chunk_def IMPORT_RETRIES_def no_response_def retry_loop_unfold
      retry_loop_stop net_first_only_def no_totals_def chunk_request_def sample_args_def
      batch_of_def http_argument_def aggs_def)

lemma sample_reaches:
  "loop_reaches nw (sample_args [10, 20, 30]) [] [] [10, 20, 30] [] no_totals []"
  by (simp add: loop_reaches_def chunks_of_def sample_args_def CHUNK_SIZE_def chunk_short
      truthy_def no_totals_def)

lemma down_run:
  "chunkDataAndWriteToIndex net_down (sample_args [10, 20, 30]) [] =
     (\<lparr> res_success = False, res_failures = Some [''rejected''], res_docCount = Some 0,
        res_error = Some ''unavailable'' \<rparr>,
      replicate 5 (chunk_request net_down (sample_args [10, 20, 30]) [10, 20, 30]))"
proof -
  let ?q = "chunk_request net_down (sample_args [10, 20, 30]) [10, 20, 30]"
  have "write_chunk net_down (Some ''uuid-1'') (Some ''sales'') (Some (JObj [])) (Some (JObj []))
          [10, 20, 30] [] = (net_http net_down ([] @ replicate 4 ?q) ?q, [] @ replicate 5 ?q)"
    by (rule write_chunk_all_fail) (simp_all add: net_down_def chunk_request_def sample_args_def)
  then show ?thesis
    by (simp add: chunkDataAndWriteToIndex_def chunks_of_def sample_args_def CHUNK_SIZE_def
        chunk_short truthy_def Let_def no_totals_def import_result_of_def net_down_def)
qed

lemma flaky_run:
  "chunkDataAndWriteToIndex net_flaky (sample_args [10, 20, 30]) [] =
     (\<lparr> res_success = True, res_failures = Some [], res_docCount = Some 3,
        res_error = None \<rparr>,
      [chunk_request net_flaky (sample_args [10, 20, 30]) [10, 20, 30],
       chunk_request net_flaky (sample_args [10, 20, 30]) [10, 20, 30]])"
  by (simp add: chunkDataAndWriteToIndex_def chunks_of_def sample_args_def CHUNK_SIZE_def
      chunk_short truthy_def Let_def no_totals_def import_result_of_def net_flaky_def
      write_chunk_def IMPORT_RETRIES_def no_response_def retry_loop_unfold retry_loop_stop
      chunk_request_def batch_of_def http_argument_def aggs_def)

lemma sample_geo_resolves:
  "transformDataByFormatForIndexing sample_geo (Tag ''geo'') [10, 20, 30] ''geo_point'' =
     \<lparr> tr_success = True, tr_error = None,
       tr_indexingDetails = sample_geo [10, 20, 30] ''geo_point'' \<rparr>"
  by (simp add: transformDataByFormatForIndexing_def sample_geo_def)

lemma sample_custom_resolves:
  "transformDataByFormatForIndexing geo (Custom sample_custom) [10, 20, 30] dataType =
     \<lparr> tr_success = True, tr_error = None,
       tr_indexingDetails = sample_custom [10, 20, 30] \<rparr>"
  by (simp add: transformDataByFormatForIndexing_def sample_custom_def)

lemma sample_geo_creation:
  "http_argument net_down
     (creation_details None (the (sample_geo [10, 20, 30] ''geo_point'')) (Some ''sales'')) =
   \<lparr> rq_url = ''/api/fileupload/import'', rq_method = ''POST'',
     rq_data = \<lparr> p_index = Some ''sales'', p_data = Some [], p_settings = None,
                 p_mappings = Some (JObj [(''geometry'', JStr ''geo_point'')]),
                 p_ingestPipeline = Some (JObj []), p_fileType = Some ''json'',
                 p_app = None \<rparr> \<rparr>"
  by (simp add: http_argument_def creation_details_def spread_def over_def no_details_def
      sample_geo_def net_down_def truthy_def fileType_def)

lemma sample_custom_creation:
  "http_argument net_ok
     (creation_details (Some ''maps'') (the (sample_custom [10, 20, 30])) (Some ''sales'')) =
   \<lparr> rq_url = ''/api/fileupload/import'', rq_method = ''POST'',
     rq_data = \<lparr> p_index = Some ''sales'', p_data = Some [], p_settings = None,
                 p_mappings = None, p_ingestPipeline = None, p_fileType = Some ''json'',
                 p_app = None \<rparr> \<rparr>"
  by (simp add: http_argument_def creation_details_def spread_def over_def no_details_def
      sample_custom_def net_ok_def truthy_def fileType_def)

lemma sample_custom_import:
  "import_details (Some ''uuid-1'') (Some ''sales'') (the (sample_custom [10, 20, 30])) =
     \<lparr> d_id = Some ''uuid-1'', d_index = None, d_data = Some [10, 20, 30],
       d_settings = Some (JObj []), d_mappings = Some (JObj []),
       d_ingestPipeline = None, d_appName = None \<rparr>"
  by (simp add: import_details_def spread_def over_def no_details_def sample_custom_def)

section \<open>The claims\<close>

text \<open>
  Claim C1.  For 25,000 records and a network where every write succeeds and reports
  as many documents as its batch holds, three batches are sent, of 10,000, 10,000 and
  5,000 records, and the result reports \<open>docCount: 5000\<close>, the size of the last
  batch: the count of a batch replaces the count so far.
\<close>

theorem docCount_is_last_batch:
  assumes "truthy (d_index args)" and "d_data args = Some records"
    and "length records = 25000"
    and "\<forall>s q. resp_success (net_http nw s q)
               \<and> resp_docCount (net_http nw s q) = int (length (batch_of q))"
  shows "res_success (fst (chunkDataAndWriteToIndex nw args sent))
       \<and> res_docCount (fst (chunkDataAndWriteToIndex nw args sent)) = Some 5000
       \<and> map batch_of (drop (length sent) (snd (chunkDataAndWriteToIndex nw args sent)))
           = [take 10000 records, take 10000 (drop 10000 records), drop 20000 records]
       \<and> map length (chunks_of args) = [10000, 10000, 5000]"
proof -
  let ?c1 = "take 10000 records" and ?c2 = "take 10000 (drop 10000 records)"
    and ?c3 = "drop 20000 records"
  have chunks: "chunks_of args = [?c1, ?c2, ?c3]"
    using assms(2,3) by (simp add: chunks_of_def CHUNK_SIZE_def chunk_25000)
  have w: "write_chunk nw (d_id args) (d_index args) (d_settings args) (d_mappings args) c s =
             (net_http nw s (chunk_request nw args c), s @ [chunk_request nw args c])" for c s
    using assms(4) by (intro write_chunk_first_ok) (simp_all add: chunk_request_def)
  have ok: "resp_success (net_http nw s q)" for s q
    using assms(4) by simp
  have count: "resp_docCount (net_http nw s (chunk_request nw args c)) = int (length c)" for s c
    using assms(4) by (simp add: batch_of_chunk_request)
  have run: "chunkDataAndWriteToIndex nw args sent =
      (import_result_of (fst (batch_loop nw (d_id args) (d_index args) (d_settings args)
            (d_mappings args) [?c1, ?c2, ?c3] no_totals sent)),
       snd (batch_loop nw (d_id args) (d_index args) (d_settings args)
            (d_mappings args) [?c1, ?c2, ?c3] no_totals sent))"
    using assms(1) by (simp add: chunkDataAndWriteToIndex_def Let_def chunks del: batch_loop.simps)
  have len3: "length ?c3 = 5000"
    using assms(3) by simp
  show ?thesis
    unfolding run chunks
    using assms(3)
    by (simp add: w ok count import_result_of_def no_totals_def batch_of_chunk_request)
qed

theorem docCount_is_last_batch_witness:
  "truthy (d_index (sample_args (replicate 25000 0)))
   \<and> length (replicate 25000 (0::nat)) = 25000
   \<and> res_docCount (fst (chunkDataAndWriteToIndex net_ok (sample_args (replicate 25000 0)) []))
       = Some 5000
   \<and> map batch_of (snd (chunkDataAndWriteToIndex net_ok (sample_args (replicate 25000 0)) []))
       = [replicate 10000 0, replicate 10000 0, replicate 5000 0]"
  using docCount_is_last_batch [of "sample_args (replicate 25000 0)" "replicate 25000 0"
      net_ok "[]"]
  by (simp add: sample_args_def truthy_def net_ok_def)

text \<open>
  Claim C2.  When the outer loop starts the round for a chunk and the network reports
  failure on each of the five attempts for it, the run sends exactly five requests for
  that chunk and nothing after them, whatever chunks remain, and returns
  \<open>success: false\<close>, \<open>docCount: 0\<close>, the error of the last response, and the failures
  so far followed by those of the last response.
\<close>

theorem five_attempts_then_stop:
  assumes "loop_reaches nw args sent pre c rest tot sent1"
    and "\<forall>j<IMPORT_RETRIES.
           \<not> resp_success (net_http nw (sent1 @ replicate j (chunk_request nw args c))
                             (chunk_request nw args c))"
  shows "chunkDataAndWriteToIndex nw args sent =
           (let q = chunk_request nw args c;
                resp = net_http nw (sent1 @ replicate 4 q) q
            in (\<lparr> res_success = False,
                   res_failures = Some (t_failures tot @ resp_failures resp),
                   res_docCount = Some 0,
                   res_error = (if truthy (resp_error resp) then resp_error resp else None) \<rparr>,
                sent1 @ replicate 5 q))"
proof -
  let ?q = "chunk_request nw args c"
  have "write_chunk nw (d_id args) (d_index args) (d_settings args) (d_mappings args) c sent1 =
          (net_http nw (sent1 @ replicate 4 ?q) ?q, sent1 @ replicate 5 ?q)"
    using assms(2) by (rule write_chunk_all_fail) (simp add: chunk_request_def)
  moreover have "\<not> resp_success (net_http nw (sent1 @ replicate 4 ?q) ?q)"
    using assms(2) by (simp add: IMPORT_RETRIES_def)
  ultimately show ?thesis
    unfolding run_from [OF assms(1)]
    by (simp add: import_result_of_def Let_def)
qed

theorem five_attempts_then_stop_witness:
  "loop_reaches net_first_only (sample_args (replicate 20001 0)) []
     [replicate 10000 0] (replicate 10000 0) [[0]]
     \<lparr> t_success = True, t_failures = [], t_error = None, t_docCount = 10000 \<rparr>
     [chunk_request net_first_only (sample_args (replicate 20001 0)) (replicate 10000 0)]
   \<and> chunkDataAndWriteToIndex net_first_only (sample_args (replicate 20001 0)) [] =
       (\<lparr> res_success = False, res_failures = Some [''rejected''], res_docCount = Some 0,
          res_error = Some ''unavailable'' \<rparr>,
        chunk_request net_first_only (sample_args (replicate 20001 0)) (replicate 10000 0)
        # replicate 5 (chunk_request net_first_only (sample_args (replicate 20001 0))
                       (replicate 10000 0)))"
proof -
  let ?q = "chunk_request net_first_only (sample_args (replicate 20001 0)) (replicate 10000 0)"
  have reach: "loop_reaches net_first_only (sample_args (replicate 20001 0)) []
     [replicate 10000 0] (replicate 10000 0) [[0]]
     \<lparr> t_success = True, t_failures = [], t_error = None, t_docCount = 10000 \<rparr> [?q]"
    unfolding loop_reaches_def chunks_of_20001
    using first_only_round1 by (simp add: sample_args_def truthy_def)
  have fails: "\<forall>j<IMPORT_RETRIES.
      \<not> resp_success (net_http net_first_only ([?q] @ replicate j ?q) ?q)"
    by (simp add: net_first_only_def)
  from five_attempts_then_stop [OF reach fails] reach
  show ?thesis
    by (simp add: net_first_only_def truthy_def Let_def)
qed

text \<open>
  Claim C3, as the code has it.  In the round for a chunk the inner loop makes \<open>k\<close>
  attempts: the attempts before the \<open>k\<close>-th report failure, and the \<open>k\<close>-th
  reports success or is the fifth.  The failures list of the result is then exactly
  the failures of the rounds before, followed by the failures of the \<open>k\<close>-th and
  last response, whether it reports success or failure, followed by the failures
  that the rounds for the remaining chunks add when it reports success, and by
  nothing when it reports failure.  No response of an attempt for this chunk that
  was retried enters the list.
\<close>

theorem last_response_failures_merged:
  assumes "loop_reaches nw args sent pre c rest tot sent1"
  shows "\<exists>k. 1 \<le> k \<and> k \<le> IMPORT_RETRIES \<and>
           (let q = chunk_request nw args c;
                resp = net_http nw (sent1 @ replicate (k - 1) q) q
            in (\<forall>j<k - 1. \<not> resp_success (net_http nw (sent1 @ replicate j q) q))
               \<and> (resp_success resp \<or> k = IMPORT_RETRIES)
               \<and> write_chunk nw (d_id args) (d_index args) (d_settings args) (d_mappings args)
                    c sent1 = (resp, sent1 @ replicate k q)
               \<and> t_failures tot =
                    t_failures (fst (batch_loop nw (d_id args) (d_index args) (d_settings args)
                       (d_mappings args) pre no_totals sent))
               \<and> res_failures (fst (chunkDataAndWriteToIndex nw args sent))
                   = Some (t_failures tot @ resp_failures resp @
                       (if resp_success resp
                        then t_failures (fst (batch_loop nw (d_id args) (d_index args)
                               (d_settings args) (d_mappings args) rest no_totals
                               (sent1 @ replicate k q)))
                        else [])))"
proof -
  let ?q = "chunk_request nw args c"
  let ?w = "write_chunk nw (d_id args) (d_index args) (d_settings args) (d_mappings args) c sent1"
  have "?q = http_argument nw (aggs (d_id args) (d_index args) (d_settings args)
                                    (d_mappings args) c)"
    by (simp add: chunk_request_def)
  from write_chunk_cases [OF this, of sent1]
  obtain k where k: "1 \<le> k" "k \<le> IMPORT_RETRIES"
    and before: "\<forall>j<k - 1. \<not> resp_success (net_http nw (sent1 @ replicate j ?q) ?q)"
    and last: "resp_success (net_http nw (sent1 @ replicate (k - 1) ?q) ?q) \<or> k = IMPORT_RETRIES"
    and w: "?w = (net_http nw (sent1 @ replicate (k - 1) ?q) ?q, sent1 @ replicate k ?q)"
    by blast
  let ?resp = "net_http nw (sent1 @ replicate (k - 1) ?q) ?q"
  have pre: "t_failures tot =
      t_failures (fst (batch_loop nw (d_id args) (d_index args) (d_settings args)
                       (d_mappings args) pre no_totals sent))"
    using assms by (simp add: loop_reaches_def)
  have fin: "res_failures (fst (chunkDataAndWriteToIndex nw args sent))
      = Some (t_failures tot @ resp_failures ?resp @
           (if resp_success ?resp
            then t_failures (fst (batch_loop nw (d_id args) (d_index args)
                   (d_settings args) (d_mappings args) rest no_totals
                   (sent1 @ replicate k ?q)))
            else []))"
  proof (cases "resp_success ?resp")
    case True
    let ?tot = "tot\<lparr> t_failures := t_failures tot @ resp_failures ?resp,
                     t_docCount := resp_docCount ?resp \<rparr>"
    have "t_failures (fst (batch_loop nw (d_id args) (d_index args)
        (d_settings args) (d_mappings args) rest ?tot (sent1 @ replicate k ?q)))
        = t_failures ?tot @ t_failures (fst (batch_loop nw (d_id args) (d_index args)
        (d_settings args) (d_mappings args) rest no_totals (sent1 @ replicate k ?q)))"
      by (rule batch_loop_failures_split)
    with w True show ?thesis
      unfolding run_from [OF assms]
      by (simp add: import_result_of_def)
  next
    case False
    with w show ?thesis
      unfolding run_from [OF assms]
      by (simp add: import_result_of_def)
  qed
  from k before last w pre fin show ?thesis
    unfolding Let_def by blast
qed

theorem last_response_failures_merged_witness:
  "loop_reaches net_flaky (sample_args [10, 20, 30]) [] [] [10, 20, 30] [] no_totals []
   \<and> resp_failures (net_http net_flaky []
         (chunk_request net_flaky (sample_args [10, 20, 30]) [10, 20, 30])) = [''rejected'']
   \<and> res_failures (fst (chunkDataAndWriteToIndex net_flaky (sample_args [10, 20, 30]) []))
       = Some []
   \<and> loop_reaches net_down (sample_args [10, 20, 30]) [] [] [10, 20, 30] [] no_totals []
   \<and> res_failures (fst (chunkDataAndWriteToIndex net_down (sample_args [10, 20, 30]) []))
       = Some [''rejected'']"
proof -
  let ?c = "[10, 20, 30] :: nat list"
  let ?q = "chunk_request net_flaky (sample_args ?c) ?c"
  let ?ok = "\<lambda>j. resp_success (net_http net_flaky ([] @ replicate j ?q) ?q)"
  have ok: "?ok j \<longleftrightarrow> j \<noteq> 0" for j
    by (simp add: net_flaky_def)
  from last_response_failures_merged [OF sample_reaches [of net_flaky]]
  obtain k where k: "1 \<le> k"
    and before: "\<forall>j<k - 1. \<not> ?ok j"
    and last: "?ok (k - 1) \<or> k = IMPORT_RETRIES"
    and fin: "res_failures (fst (chunkDataAndWriteToIndex net_flaky (sample_args ?c) []))
       = Some (t_failures (no_totals :: string totals) @
           resp_failures (net_http net_flaky ([] @ replicate (k - 1) ?q) ?q) @
           (if ?ok (k - 1)
            then t_failures (fst (batch_loop net_flaky (d_id (sample_args ?c))
                  (d_index (sample_args ?c)) (d_settings (sample_args ?c))
                  (d_mappings (sample_args ?c)) [] no_totals ([] @ replicate k ?q)))
            else []))"
    unfolding Let_def by blast
  have l: "k - 1 \<noteq> 0 \<or> k = 5"
    using last unfolding ok IMPORT_RETRIES_def .
  have b: "\<forall>j<k - 1. j = 0"
    using before unfolding ok by simp
  have "\<not> 1 < k - 1"
  proof
    assume "1 < k - 1"
    with b have "(1::nat) = 0" by blast
    then show False by simp
  qed
  with l have "k = 2"
    by arith
  have flaky: "res_failures (fst (chunkDataAndWriteToIndex net_flaky (sample_args ?c) []))
       = Some []"
    using fin unfolding \<open>k = 2\<close> by (simp add: net_flaky_def no_totals_def)
  from last_response_failures_merged [OF sample_reaches [of net_down]]
  obtain k' where
    "res_failures (fst (chunkDataAndWriteToIndex net_down (sample_args ?c) []))
       = Some (t_failures (no_totals :: string totals) @
           resp_failures (net_http net_down
             ([] @ replicate (k' - 1) (chunk_request net_down (sample_args ?c) ?c))
             (chunk_request net_down (sample_args ?c) ?c)) @
           (if resp_success (net_http net_down
             ([] @ replicate (k' - 1) (chunk_request net_down (sample_args ?c) ?c))
             (chunk_request net_down (sample_args ?c) ?c))
            then t_failures (fst (batch_loop net_down (d_id (sample_args ?c))
                  (d_index (sample_args ?c)) (d_settings (sample_args ?c))
                  (d_mappings (sample_args ?c)) [] no_totals
                  ([] @ replicate k' (chunk_request net_down (sample_args ?c) ?c))))
            else []))"
    unfolding Let_def by blast
  then have down: "res_failures (fst (chunkDataAndWriteToIndex net_down (sample_args ?c) []))
       = Some [''rejected'']"
    by (simp add: net_down_def no_totals_def)
  have first: "resp_failures (net_http net_flaky [] ?q) = [''rejected'']"
    by (simp add: net_flaky_def)
  from flaky down first sample_reaches [of net_flaky] sample_reaches [of net_down]
  show ?thesis by simp
qed

text \<open>
  Claim C3 as it is written fails.  In this run the first attempt for the only chunk
  reports a rejected document and is retried, the second attempt succeeds, and the
  result lists no failure: what the retried attempt reported is lost.
\<close>

theorem retried_failures_are_dropped:
  "resp_failures (net_http net_flaky []
       (chunk_request net_flaky (sample_args [10, 20, 30]) [10, 20, 30])) = [''rejected'']
   \<and> snd (chunkDataAndWriteToIndex net_flaky (sample_args [10, 20, 30]) []) =
       [chunk_request net_flaky (sample_args [10, 20, 30]) [10, 20, 30],
        chunk_request net_flaky (sample_args [10, 20, 30]) [10, 20, 30]]
   \<and> res_failures (fst (chunkDataAndWriteToIndex net_flaky (sample_args [10, 20, 30]) []))
       = Some []"
  unfolding flaky_run by (simp add: net_flaky_def)

text \<open>
  Claim C4.  The chunks of a non-empty record sequence, concatenated in order, are the
  sequence; there is at least one chunk, every chunk but the last holds exactly 10,000
  records, and the last holds between 1 and 10,000.  When every write succeeds, the
  batches the importer sends are these chunks, in this order.
\<close>

theorem batches_partition_records:
  assumes "records \<noteq> []" and "d_data args = Some records"
  shows "concat (chunks_of args) = records
       \<and> chunks_of args \<noteq> []
       \<and> (\<forall>i<length (chunks_of args).
             (Suc i < length (chunks_of args) \<longrightarrow> length (chunks_of args ! i) = 10000)
             \<and> 0 < length (chunks_of args ! i) \<and> length (chunks_of args ! i) \<le> 10000)
       \<and> (truthy (d_index args) \<and> (\<forall>s q. resp_success (net_http nw s q)) \<longrightarrow>
            map batch_of (drop (length sent) (snd (chunkDataAndWriteToIndex nw args sent)))
              = chunks_of args)"
proof -
  have ch: "chunks_of args = chunk records 10000"
    using assms(2) by (simp add: chunks_of_def CHUNK_SIZE_def)
  have a: "concat (chunks_of args) = records"
    unfolding ch by (rule concat_chunk) simp
  have b: "chunks_of args \<noteq> []"
    unfolding ch using assms(1) by (simp add: chunk_eq_Nil)
  have c: "\<forall>i<length (chunks_of args).
             (Suc i < length (chunks_of args) \<longrightarrow> length (chunks_of args ! i) = 10000)
             \<and> 0 < length (chunks_of args ! i) \<and> length (chunks_of args ! i) \<le> 10000"
    unfolding ch using chunk_lengths [of 10000 _ records] by simp
  have d: "map batch_of (drop (length sent) (snd (chunkDataAndWriteToIndex nw args sent)))
              = chunks_of args"
    if "truthy (d_index args)" and "\<forall>s q. resp_success (net_http nw s q)"
  proof -
    have "snd (chunkDataAndWriteToIndex nw args sent) =
            sent @ map (chunk_request nw args) (chunks_of args)"
      using that(1) batch_loop_all_ok [OF that(2)]
      by (simp add: chunkDataAndWriteToIndex_def Let_def chunk_request_def)
    then show ?thesis
      by (simp add: o_def batch_of_chunk_request)
  qed
  from a b c d show ?thesis by blast
qed

theorem batches_partition_records_witness:
  "replicate 20001 (0::nat) \<noteq> []
   \<and> concat (chunks_of (sample_args (replicate 20001 0))) = replicate 20001 0
   \<and> chunks_of (sample_args (replicate 20001 0)) = [replicate 10000 0, replicate 10000 0, [0]]
   \<and> map batch_of (snd (chunkDataAndWriteToIndex net_ok (sample_args (replicate 20001 0)) []))
       = [replicate 10000 0, replicate 10000 0, [0]]"
proof -
  have ok: "truthy (d_index (sample_args (replicate 20001 0)))
        \<and> (\<forall>s q. resp_success (net_http net_ok s q))"
    by (simp add: sample_args_def truthy_def net_ok_def)
  have ne: "replicate 20001 (0::nat) \<noteq> []"
    by simp
  have dat: "d_data (sample_args (replicate 20001 0)) = Some (replicate 20001 0)"
    by (simp add: sample_args_def)
  from batches_partition_records [OF ne dat, of net_ok "[]"] ok ne
  show ?thesis
    by (simp add: chunks_of_20001)
qed

text \<open>
  Claim C5.  Called with an empty or absent index name, the chunked importer returns
  \<open>{success: false, error: 'No index supplied'}\<close> at once: the object has no other
  property, and the requests sent are those sent before the call, whatever the network
  and the other arguments are.
\<close>

theorem no_index_supplied:
  assumes "\<not> truthy (d_index args)"
  shows "chunkDataAndWriteToIndex nw args sent =
           (\<lparr> res_success = False, res_failures = None, res_docCount = None,
              res_error = Some ''No index supplied'' \<rparr>, sent)"
  using assms by (simp add: chunkDataAndWriteToIndex_def i18n_translate_def)

theorem no_index_supplied_witness:
  "\<not> truthy (d_index ((sample_args [10, 20, 30])\<lparr> d_index := Some '''' \<rparr>))
   \<and> \<not> truthy (d_index ((sample_args [10, 20, 30])\<lparr> d_index := None \<rparr>))
   \<and> chunkDataAndWriteToIndex net_ok ((sample_args [10, 20, 30])\<lparr> d_index := Some '''' \<rparr>) [] =
         (\<lparr> res_success = False, res_failures = None, res_docCount = None,
            res_error = Some ''No index supplied'' \<rparr>, [])
   \<and> chunkDataAndWriteToIndex net_ok ((sample_args [10, 20, 30])\<lparr> d_index := None \<rparr>) [] =
         (\<lparr> res_success = False, res_failures = None, res_docCount = None,
            res_error = Some ''No index supplied'' \<rparr>, [])"
  using no_index_supplied [of "(sample_args [10, 20, 30])\<lparr> d_index := Some '''' \<rparr>" net_ok "[]"]
    no_index_supplied [of "(sample_args [10, 20, 30])\<lparr> d_index := None \<rparr>" net_ok "[]"]
  by (simp add: truthy_def sample_args_def)

text \<open>
  Claim C6, as the code has it.  When an index is given and the result reports
  \<open>success: false\<close>, its \<open>docCount\<close> is zero, whatever the earlier chunks
  reported.
\<close>

theorem failed_import_counts_zero:
  assumes "truthy (d_index args)"
    and "\<not> res_success (fst (chunkDataAndWriteToIndex nw args sent))"
  shows "res_docCount (fst (chunkDataAndWriteToIndex nw args sent)) = Some 0"
proof -
  let ?out = "batch_loop nw (d_id args) (d_index args) (d_settings args) (d_mappings args)
                (chunks_of args) no_totals sent"
  have run: "fst (chunkDataAndWriteToIndex nw args sent) = import_result_of (fst ?out)"
    using assms(1) by (simp add: chunkDataAndWriteToIndex_def Let_def)
  have "t_success (no_totals :: 'b totals)"
    by (simp add: no_totals_def)
  moreover have "\<not> t_success (fst ?out)"
    using assms(2) unfolding run by (simp add: import_result_of_def)
  ultimately have "t_docCount (fst ?out) = 0"
    by (rule batch_loop_docCount)
  then show ?thesis
    unfolding run by (simp add: import_result_of_def)
qed

theorem failed_import_counts_zero_witness:
  "truthy (d_index (sample_args [10, 20, 30]))
   \<and> \<not> res_success (fst (chunkDataAndWriteToIndex net_down (sample_args [10, 20, 30]) []))
   \<and> res_docCount (fst (chunkDataAndWriteToIndex net_down (sample_args [10, 20, 30]) [])) = Some 0"
proof -
  have a: "truthy (d_index (sample_args [10, 20, 30]))"
    by (simp add: sample_args_def truthy_def)
  have b: "\<not> res_success (fst (chunkDataAndWriteToIndex net_down (sample_args [10, 20, 30]) []))"
    by (simp add: down_run)
  from failed_import_counts_zero [OF a b] a b show ?thesis by simp
qed

text \<open>
  Claim C6 as it is written fails for the early return: with an empty index the
  result reports \<open>success: false\<close> and has no \<open>docCount\<close>.
\<close>

theorem no_index_result_has_no_docCount:
  "\<not> res_success (fst (chunkDataAndWriteToIndex net_ok
        ((sample_args [10, 20, 30])\<lparr> d_index := Some '''' \<rparr>) []))
   \<and> res_docCount (fst (chunkDataAndWriteToIndex net_ok
        ((sample_args [10, 20, 30])\<lparr> d_index := Some '''' \<rparr>) [])) \<noteq> Some 0"
  by (simp add: chunkDataAndWriteToIndex_def truthy_def sample_args_def)

text \<open>
  Claim C7.  When the outer loop starts the round for a chunk, the attempts before the
  \<open>k\<close>-th fail and the \<open>k\<close>-th succeeds, for a \<open>k\<close> from 1 to 5, the inner loop ends
  after exactly \<open>k\<close> requests for that chunk, and the run goes on from there with
  the round for the next chunk.
\<close>

theorem success_stops_retries:
  assumes "loop_reaches nw args sent pre c rest tot sent1"
    and "1 \<le> k" and "k \<le> IMPORT_RETRIES"
    and "\<forall>j<k - 1. \<not> resp_success (net_http nw (sent1 @ replicate j (chunk_request nw args c))
                                     (chunk_request nw args c))"
    and "resp_success (net_http nw (sent1 @ replicate (k - 1) (chunk_request nw args c))
                         (chunk_request nw args c))"
  shows "(let q = chunk_request nw args c;
              resp = net_http nw (sent1 @ replicate (k - 1) q) q;
              next_round = batch_loop nw (d_id args) (d_index args) (d_settings args)
                  (d_mappings args) rest
                  (tot\<lparr> t_failures := t_failures tot @ resp_failures resp,
                        t_docCount := resp_docCount resp \<rparr>)
                  (sent1 @ replicate k q)
          in write_chunk nw (d_id args) (d_index args) (d_settings args) (d_mappings args) c sent1
               = (resp, sent1 @ replicate k q)
             \<and> chunkDataAndWriteToIndex nw args sent
               = (import_result_of (fst next_round), snd next_round))"
proof -
  let ?q = "chunk_request nw args c"
  have w: "write_chunk nw (d_id args) (d_index args) (d_settings args) (d_mappings args) c sent1 =
          (net_http nw (sent1 @ replicate (k - 1) ?q) ?q, sent1 @ replicate k ?q)"
    using assms(2-5) by (rule write_chunk_success_at) (simp add: chunk_request_def)
  with assms(5) show ?thesis
    unfolding run_from [OF assms(1)]
    by (simp add: Let_def)
qed

theorem success_stops_retries_witness:
  "loop_reaches net_flaky (sample_args [10, 20, 30]) [] [] [10, 20, 30] [] no_totals []
   \<and> \<not> resp_success (net_http net_flaky []
           (chunk_request net_flaky (sample_args [10, 20, 30]) [10, 20, 30]))
   \<and> resp_success (net_http net_flaky
           [chunk_request net_flaky (sample_args [10, 20, 30]) [10, 20, 30]]
           (chunk_request net_flaky (sample_args [10, 20, 30]) [10, 20, 30]))
   \<and> chunkDataAndWriteToIndex net_flaky (sample_args [10, 20, 30]) [] =
       (\<lparr> res_success = True, res_failures = Some [], res_docCount = Some 3,
          res_error = None \<rparr>,
        [chunk_request net_flaky (sample_args [10, 20, 30]) [10, 20, 30],
         chunk_request net_flaky (sample_args [10, 20, 30]) [10, 20, 30]])"
proof -
  let ?q = "chunk_request net_flaky (sample_args [10, 20, 30]) [10, 20, 30]"
  have two: "(1::nat) \<le> 2" "2 \<le> IMPORT_RETRIES"
    by (simp_all add: IMPORT_RETRIES_def)
  have first: "\<forall>j<2 - 1. \<not> resp_success (net_http net_flaky ([] @ replicate j ?q) ?q)"
    by (simp add: net_flaky_def)
  have second: "resp_success (net_http net_flaky ([] @ replicate (2 - 1) ?q) ?q)"
    by (simp add: net_flaky_def)
  from success_stops_retries [OF sample_reaches two first second] sample_reaches [of net_flaky]
  show ?thesis
    by (simp add: Let_def net_flaky_def import_result_of_def no_totals_def truthy_def
        batch_of_def chunk_request_def http_argument_def aggs_def sample_args_def
        numeral_2_eq_2)
qed

text \<open>
  Claim C8.  For a descriptor that is given (truthy) and is a tag other than
  \<open>'geo'\<close>, the resolver returns \<open>{success: false, error}\<close> where the error is
  \<open>'No handling defined for transform: '\<close> followed by the tag; for the tag
  \<open>'unknown'\<close> it is \<open>'No handling defined for transform: unknown'\<close>.  (The empty
  string is not truthy: for it the resolver takes its first branch, that of a missing
  descriptor.)
\<close>

theorem unknown_tag_is_unsupported:
  assumes "transform_truthy (Tag t)" and "t \<noteq> ''geo''"
  shows "transformDataByFormatForIndexing geo (Tag t) parsedFile dataType =
           \<lparr> tr_success = False,
             tr_error = Some (''No handling defined for transform: '' @ t),
             tr_indexingDetails = None \<rparr>"
  using assms by (simp add: transformDataByFormatForIndexing_def)

theorem unknown_tag_is_unsupported_witness:
  "transform_truthy (Tag ''unknown'' :: (nat list, nat) transform)
   \<and> ''unknown'' \<noteq> ''geo''
   \<and> transformDataByFormatForIndexing sample_geo (Tag ''unknown'') [10, 20, 30] ''geo_point'' =
       \<lparr> tr_success = False,
         tr_error = Some ''No handling defined for transform: unknown'',
         tr_indexingDetails = None \<rparr>"
  using unknown_tag_is_unsupported [of "''unknown''" sample_geo "[10, 20, 30]" "''geo_point''"]
  by simp

text \<open>
  Claim C9, as the code has it.  The proviso is that of the model: every response of
  the import endpoint is an object of the shape \<open>{success, failures, docCount,
  error?, id?}\<close> with a boolean \<open>success\<close> and an array \<open>failures\<close>, and the geo
  transform and the custom transform's \<open>getIndexingDetails\<close> return an object or a
  falsy value; where a response has another shape, or a request or a transform
  throws, the code can fail in other ways (a \<open>TypeError\<close>), of which this theory says
  nothing.  Under the proviso \<open>indexData\<close> throws in exactly three situations: no
  parsed file (\<open>'No file imported'\<close>, nothing sent); any failure of the transform
  resolver, that is a missing descriptor, an unknown tag, or a transform that gives
  no details (\<open>'Error transforming data: '\<close> followed by the resolver's error,
  nothing sent); and a response to the creation request that carries no truthy id
  (\<open>'Error creating index'\<close>, after that one request).  In every other case it
  returns the result object of the chunked importer, which carries \<open>success\<close> and,
  on failure, \<open>error\<close>.  The second sample run below returns
  \<open>'No index supplied'\<close> as such a result: the custom transform's object has the
  property \<open>index\<close> with the value \<open>undefined\<close>, which the spread puts in the place
  of the index name.
\<close>

theorem indexData_faults:
  "(indexData geo nw parsedFile transform indexName dataType appName sent = (Inl e, sent') \<longleftrightarrow>
      (parsedFile = None \<and> e = ''No file imported'' \<and> sent' = sent)
    \<or> (\<exists>file. parsedFile = Some file \<and> sent' = sent \<and>
          ((\<not> transform_truthy transform
              \<and> e = ''Error transforming data: No transform defined'')
           \<or> (\<exists>t. transform = Tag t \<and> t \<noteq> '''' \<and> t \<noteq> ''geo''
              \<and> e = ''Error transforming data: No handling defined for transform: '' @ t)
           \<or> (transform = Tag ''geo'' \<and> geo file dataType = None
              \<and> e = ''Error transforming data: Unknown error performing transform: geo'')
           \<or> (\<exists>obj. transform = Custom obj \<and> obj file = None
              \<and> e = ''Error transforming data: Unknown error performing transform: [object Object]'')))
    \<or> (\<exists>file d. parsedFile = Some file
          \<and> transformDataByFormatForIndexing geo transform file dataType =
              \<lparr> tr_success = True, tr_error = None, tr_indexingDetails = Some d \<rparr>
          \<and> \<not> truthy (resp_id (net_http nw sent
                  (http_argument nw (creation_details appName d indexName))))
          \<and> e = ''Error creating index''
          \<and> sent' = sent @ [http_argument nw (creation_details appName d indexName)]))
   \<and> (indexData geo nw parsedFile transform indexName dataType appName sent = (Inr r, sent') \<longleftrightarrow>
      (\<exists>file d. parsedFile = Some file
          \<and> transformDataByFormatForIndexing geo transform file dataType =
              \<lparr> tr_success = True, tr_error = None, tr_indexingDetails = Some d \<rparr>
          \<and> truthy (resp_id (net_http nw sent
                  (http_argument nw (creation_details appName d indexName))))
          \<and> chunkDataAndWriteToIndex nw
                (import_details
                   (resp_id (net_http nw sent
                      (http_argument nw (creation_details appName d indexName))))
                   indexName d)
                (sent @ [http_argument nw (creation_details appName d indexName)]) = (r, sent')))"
proof (cases parsedFile)
  case None
  then show ?thesis
    by (auto simp: indexData_def)
next
  case (Some parsed)
  let ?T = "transformDataByFormatForIndexing geo transform parsed dataType"
  show ?thesis
  proof (cases "tr_success ?T")
    case False
    have run: "indexData geo nw parsedFile transform indexName dataType appName sent =
        (Inl (''Error transforming data: '' @ (case tr_error ?T of Some e \<Rightarrow> e
                           | None \<Rightarrow> ''undefined'')), sent)"
      using Some False by (simp add: indexData_def Let_def)
    from False have cases: "\<not> transform_truthy transform
       \<or> (\<exists>t. transform = Tag t \<and> t \<noteq> ''geo'')
       \<or> (transform = Tag ''geo'' \<and> geo parsed dataType = None)
       \<or> (\<exists>obj. transform = Custom obj \<and> obj parsed = None)"
      by (simp add: resolver_fails)
    have no_ok: "?T \<noteq> \<lparr> tr_success = True, tr_error = None, tr_indexingDetails = Some d \<rparr>" for d
      using False by auto
    show ?thesis
      unfolding run resolver_error using Some cases no_ok
      by (cases transform) (auto split: option.splits)
  next
    case True
    from resolver_succeeds [OF True]
    obtain d where T: "?T = \<lparr> tr_success = True, tr_error = None,
        tr_indexingDetails = Some d \<rparr>" ..

    have ok: "transform_truthy transform"
      "\<not> (\<exists>t. transform = Tag t \<and> t \<noteq> ''geo'')"
      "\<not> (transform = Tag ''geo'' \<and> geo parsed dataType = None)"
      "\<not> (\<exists>obj. transform = Custom obj \<and> obj parsed = None)"
      using True resolver_fails [of geo transform parsed dataType] by blast+
    let ?q = "http_argument nw (creation_details appName d indexName)"
    have run: "indexData geo nw parsedFile transform indexName dataType appName sent =
        (if \<not> truthy (resp_id (net_http nw sent ?q)) then (Inl ''Error creating index'', sent @ [?q])
         else (Inr (fst (chunkDataAndWriteToIndex nw
                  (import_details (resp_id (net_http nw sent ?q)) indexName d) (sent @ [?q]))),
               snd (chunkDataAndWriteToIndex nw
                  (import_details (resp_id (net_http nw sent ?q)) indexName d) (sent @ [?q]))))"
      using Some by (simp add: indexData_def Let_def T writeToIndex_def)
    have D1: "\<not> (parsedFile = None \<and> e = ''No file imported'' \<and> sent' = sent)"
      using Some by simp
    have D2: "\<not> (\<exists>file. parsedFile = Some file \<and> sent' = sent \<and>
          ((\<not> transform_truthy transform
              \<and> e = ''Error transforming data: No transform defined'')
           \<or> (\<exists>t. transform = Tag t \<and> t \<noteq> '''' \<and> t \<noteq> ''geo''
              \<and> e = ''Error transforming data: No handling defined for transform: '' @ t)
           \<or> (transform = Tag ''geo'' \<and> geo file dataType = None
              \<and> e = ''Error transforming data: Unknown error performing transform: geo'')
           \<or> (\<exists>obj. transform = Custom obj \<and> obj file = None
              \<and> e = ''Error transforming data: Unknown error performing transform: [object Object]'')))"
      using Some ok by blast
    have D3: "(\<exists>file d. parsedFile = Some file
          \<and> transformDataByFormatForIndexing geo transform file dataType =
              \<lparr> tr_success = True, tr_error = None, tr_indexingDetails = Some d \<rparr>
          \<and> \<not> truthy (resp_id (net_http nw sent
                  (http_argument nw (creation_details appName d indexName))))
          \<and> e = ''Error creating index''
          \<and> sent' = sent @ [http_argument nw (creation_details appName d indexName)])
      \<longleftrightarrow> (\<not> truthy (resp_id (net_http nw sent ?q)) \<and> e = ''Error creating index''
            \<and> sent' = sent @ [?q])"
      using Some by (simp add: T)
    have V: "(\<exists>file d. parsedFile = Some file
          \<and> transformDataByFormatForIndexing geo transform file dataType =
              \<lparr> tr_success = True, tr_error = None, tr_indexingDetails = Some d \<rparr>
          \<and> truthy (resp_id (net_http nw sent
                  (http_argument nw (creation_details appName d indexName))))
          \<and> chunkDataAndWriteToIndex nw
                (import_details
                   (resp_id (net_http nw sent
                      (http_argument nw (creation_details appName d indexName))))
                   indexName d)
                (sent @ [http_argument nw (creation_details appName d indexName)]) = (r, sent'))
      \<longleftrightarrow> (truthy (resp_id (net_http nw sent ?q))
            \<and> chunkDataAndWriteToIndex nw
                (import_details (resp_id (net_http nw sent ?q)) indexName d) (sent @ [?q])
                = (r, sent'))"
      using Some by (simp add: T)
    have L: "indexData geo nw parsedFile transform indexName dataType appName sent = (Inl e, sent')
      \<longleftrightarrow> (\<not> truthy (resp_id (net_http nw sent ?q)) \<and> e = ''Error creating index''
            \<and> sent' = sent @ [?q])"
      unfolding run by auto
    have R: "indexData geo nw parsedFile transform indexName dataType appName sent = (Inr r, sent')
      \<longleftrightarrow> (truthy (resp_id (net_http nw sent ?q))
            \<and> chunkDataAndWriteToIndex nw
                (import_details (resp_id (net_http nw sent ?q)) indexName d) (sent @ [?q])
                = (r, sent'))"
      unfolding run by (auto simp: prod_eq_iff)
    show ?thesis
      unfolding L R D3 V by (simp only: D1 D2 simp_thms)
  qed
qed

theorem indexData_faults_witness:
  "indexData sample_geo net_down (Some [10, 20, 30]) (Tag ''geo'') (Some ''sales'')
     ''geo_point'' None [] =
     (Inl ''Error creating index'',
      [\<lparr> rq_url = ''/api/fileupload/import'', rq_method = ''POST'',
         rq_data = \<lparr> p_index = Some ''sales'', p_data = Some [], p_settings = None,
                     p_mappings = Some (JObj [(''geometry'', JStr ''geo_point'')]),
                     p_ingestPipeline = Some (JObj []), p_fileType = Some ''json'',
                     p_app = None \<rparr> \<rparr>])
   \<and> indexData sample_geo net_ok (Some [10, 20, 30]) (Custom sample_custom) (Some ''sales'')
     ''geo_point'' (Some ''maps'') [] =
     (Inr \<lparr> res_success = False, res_failures = None, res_docCount = None,
            res_error = Some ''No index supplied'' \<rparr>,
      [\<lparr> rq_url = ''/api/fileupload/import'', rq_method = ''POST'',
         rq_data = \<lparr> p_index = Some ''sales'', p_data = Some [], p_settings = None,
                     p_mappings = None, p_ingestPipeline = None, p_fileType = Some ''json'',
                     p_app = None \<rparr> \<rparr>])"
proof -
  let ?q1 = "\<lparr> rq_url = ''/api/fileupload/import'', rq_method = ''POST'',
         rq_data = \<lparr> p_index = Some ''sales'', p_data = Some [], p_settings = None,
                     p_mappings = Some (JObj [(''geometry'', JStr ''geo_point'')]),
                     p_ingestPipeline = Some (JObj []), p_fileType = Some ''json'',
                     p_app = None \<rparr> \<rparr> :: nat request"
  let ?q2 = "\<lparr> rq_url = ''/api/fileupload/import'', rq_method = ''POST'',
         rq_data = \<lparr> p_index = Some ''sales'', p_data = Some [], p_settings = None,
                     p_mappings = None, p_ingestPipeline = None, p_fileType = Some ''json'',
                     p_app = None \<rparr> \<rparr> :: nat request"
  let ?r = "\<lparr> res_success = False, res_failures = None, res_docCount = None,
            res_error = Some ''No index supplied'' \<rparr> :: string import_result"
  have a: "indexData sample_geo net_down (Some [10, 20, 30]) (Tag ''geo'') (Some ''sales'')
     ''geo_point'' None [] = (Inl ''Error creating index'', [?q1])"
    using indexData_faults [of sample_geo net_down "Some [10, 20, 30]" "Tag ''geo''"
      "Some ''sales''" "''geo_point''" None "[]" "''Error creating index''" "[?q1]" ?r]
      sample_geo_creation
    by (simp add: sample_geo_resolves sample_geo_def net_down_def truthy_def)
  have b: "indexData sample_geo net_ok (Some [10, 20, 30]) (Custom sample_custom) (Some ''sales'')
     ''geo_point'' (Some ''maps'') [] = (Inr ?r, [?q2])"
    using indexData_faults [of sample_geo net_ok "Some [10, 20, 30]" "Custom sample_custom"
      "Some ''sales''" "''geo_point''" "Some ''maps''" "[]" "''Error creating index''" "[?q2]" ?r]
      sample_custom_creation sample_custom_import
    by (simp add: sample_custom_resolves sample_custom_def net_ok_def truthy_def
        chunkDataAndWriteToIndex_def i18n_translate_def)
  from a b show ?thesis by simp
qed

text \<open>
  Claim C9 as it is written fails.  With a parsed file and the unknown tag
  \<open>'unknown'\<close> the entry point throws, before any request, a value that is neither
  \<open>'No file imported'\<close> nor \<open>'No processor defined'\<close>: the resolver's failure
  is not returned as a result object.
\<close>

theorem unknown_tag_is_thrown:
  "indexData sample_geo net_ok (Some [10, 20, 30]) (Tag ''unknown'') (Some ''sales'')
     ''geo_point'' None [] =
   (Inl ''Error transforming data: No handling defined for transform: unknown'', [])
   \<and> ''Error transforming data: No handling defined for transform: unknown''
       \<noteq> ''No file imported''
   \<and> ''Error transforming data: No handling defined for transform: unknown''
       \<noteq> ''No processor defined''"
  by (simp add: indexData_def transformDataByFormatForIndexing_def)

text \<open>
  Claim C10.  Called with an index and an empty (or absent) record sequence, the
  chunked importer returns \<open>{success: true, failures: [], docCount: 0}\<close>, with no
  \<open>error\<close>, and sends no request: the outer loop runs no round.
\<close>

theorem empty_import:
  assumes "truthy (d_index args)" and "d_data args = Some [] \<or> d_data args = None"
  shows "chunkDataAndWriteToIndex nw args sent =
           (\<lparr> res_success = True, res_failures = Some [], res_docCount = Some 0,
              res_error = None \<rparr>, sent)"
  using assms
  by (auto simp: chunkDataAndWriteToIndex_def chunks_of_def chunk_empty no_totals_def
      import_result_of_def truthy_def)

theorem empty_import_witness:
  "truthy (d_index (sample_args []))
   \<and> d_data (sample_args []) = Some []
   \<and> chunkDataAndWriteToIndex net_down (sample_args []) [] =
         (\<lparr> res_success = True, res_failures = Some [], res_docCount = Some 0,
            res_error = None \<rparr>, [])"
  using empty_import [of "sample_args []" net_down "[]"]
  by (simp add: truthy_def sample_args_def)

end
